theory Spec2Isabelle
  imports Main "HOL-Library.Sublist"
begin

section \<open>The world around the handler\<close>

text \<open>
  The source is \<^verbatim>\<open>integration/aws/lambda_function.py\<close>: a CloudFormation custom-resource
  handler whose \<^verbatim>\<open>create\<close> callback is a straight line of calls into the process
  environment, the logger, the file system and the psycopg2 driver. Every one of those calls
  is an effect, so the model threads an explicit world through them and appends each call,
  in program order, to a trace. A Python exception is the value \<open>Inl e\<close>; the world at the
  moment of the raise is kept, since nothing in the source undoes an effect.
\<close>

text \<open>The exception classes that can reach the handler (psycopg2's and the built-in ones),
  each with its message.\<close>

datatype exn =
    OperationalError string
  | DuplicateDatabase string
  | DatabaseError string
  | InterfaceError string
  | FileNotFoundError string
  | OSError string

text \<open>The keyword arguments of \<^verbatim>\<open>psycopg2.connect\<close>. \<^verbatim>\<open>os.getenv\<close> yields \<^verbatim>\<open>None\<close> for
  an unset variable, so every argument is optional.\<close>

record conn_params =
  user :: "string option"
  password :: "string option"
  host :: "string option"
  port :: "string option"
  database :: "string option"

datatype isolation_level = ISOLATION_LEVEL_DEFAULT | ISOLATION_LEVEL_AUTOCOMMIT

record connection =
  params :: conn_params
  isolation :: isolation_level
  closed :: bool

text \<open>A file of the working directory either yields its text or fails when read.\<close>

datatype file_body = Readable string | Unreadable string

text \<open>One entry per call, with the outcome of the calls that can raise.\<close>

datatype event =
    Log string
  | Getenv string "string option"
  | Connect conn_params "exn option"
  | SetIsolationLevel nat isolation_level
  | Open string "exn option"
  | Read string "exn option"
  | Cursor nat
  | Execute nat string "exn option"
  | CursorClose nat
  | ConnClose nat

text \<open>
  The database server is not part of the repository. Its state is a type parameter and its
  behaviour a pair of functions: what a connection attempt and what a statement sent over a
  connection answer (an exception or success) and the state they leave the server in.
\<close>

record 'srv driver =
  drv_connect :: "conn_params \<Rightarrow> 'srv \<Rightarrow> exn option \<times> 'srv"
  drv_execute :: "connection \<Rightarrow> string \<Rightarrow> 'srv \<Rightarrow> exn option \<times> 'srv"

record 'srv world =
  environ :: "string \<rightharpoonup> string"
  files :: "string \<rightharpoonup> file_body"
  server :: 'srv
  conns :: "connection list"
  trace :: "event list"

type_synonym ('srv, 'a) action = "'srv world \<Rightarrow> (exn + 'a) \<times> 'srv world"

definition and_then :: "('srv, 'a) action \<Rightarrow> ('a \<Rightarrow> ('srv, 'b) action) \<Rightarrow> ('srv, 'b) action" where
  "and_then m f w = (case m w of (Inl e, w') \<Rightarrow> (Inl e, w') | (Inr a, w') \<Rightarrow> f a w')"

definition emit :: "event \<Rightarrow> 'srv world \<Rightarrow> 'srv world" where
  "emit ev w = w\<lparr>trace := trace w @ [ev]\<rparr>"

section \<open>The library calls\<close>

definition logger_info :: "string \<Rightarrow> ('srv, unit) action" where
  "logger_info msg w = (Inr (), emit (Log msg) w)"

definition os_getenv :: "string \<Rightarrow> ('srv, string option) action" where
  "os_getenv name w = (Inr (environ w name), emit (Getenv name (environ w name)) w)"

text \<open>Formatting a value inside an f-string: \<^verbatim>\<open>None\<close> prints as the word None.\<close>

definition py_str :: "string option \<Rightarrow> string" where
  "py_str v = (case v of None \<Rightarrow> ''None'' | Some s \<Rightarrow> s)"

text \<open>A successful \<^verbatim>\<open>psycopg2.connect\<close> returns a new connection object: its handle is the
  next index of \<open>conns\<close>.\<close>

definition psycopg2_connect :: "'srv driver \<Rightarrow> conn_params \<Rightarrow> ('srv, nat) action" where
  "psycopg2_connect drv ps w =
     (case drv_connect drv ps (server w) of
        (Some e, s) \<Rightarrow> (Inl e, emit (Connect ps (Some e)) (w\<lparr>server := s\<rparr>))
      | (None, s) \<Rightarrow>
          (Inr (length (conns w)),
           emit (Connect ps None)
             (w\<lparr>server := s,
                conns := conns w @ [\<lparr>params = ps, isolation = ISOLATION_LEVEL_DEFAULT, closed = False\<rparr>]\<rparr>)))"

definition usable :: "'srv world \<Rightarrow> nat \<Rightarrow> bool" where
  "usable w c = (c < length (conns w) \<and> \<not> closed (conns w ! c))"

definition set_isolation_level :: "nat \<Rightarrow> isolation_level \<Rightarrow> ('srv, unit) action" where
  "set_isolation_level c lvl w =
     (if usable w c
      then (Inr (), emit (SetIsolationLevel c lvl)
                      (w\<lparr>conns := (conns w)[c := (conns w ! c)\<lparr>isolation := lvl\<rparr>]\<rparr>))
      else (Inl (InterfaceError ''connection already closed''), w))"

text \<open>A cursor is used once and only on its own connection, so it is identified with the
  connection's handle.\<close>

definition cursor :: "nat \<Rightarrow> ('srv, nat) action" where
  "cursor c w =
     (if usable w c then (Inr c, emit (Cursor c) w)
      else (Inl (InterfaceError ''connection already closed''), w))"

definition cursor_execute :: "'srv driver \<Rightarrow> nat \<Rightarrow> string \<Rightarrow> ('srv, unit) action" where
  "cursor_execute drv cur stmt w =
     (if usable w cur
      then (case drv_execute drv (conns w ! cur) stmt (server w) of
              (Some e, s) \<Rightarrow> (Inl e, emit (Execute cur stmt (Some e)) (w\<lparr>server := s\<rparr>))
            | (None, s) \<Rightarrow> (Inr (), emit (Execute cur stmt None) (w\<lparr>server := s\<rparr>)))
      else (Inl (InterfaceError ''connection already closed''), w))"

definition cursor_close :: "nat \<Rightarrow> ('srv, unit) action" where
  "cursor_close cur w = (Inr (), emit (CursorClose cur) w)"

definition conn_close :: "nat \<Rightarrow> ('srv, unit) action" where
  "conn_close c w =
     (Inr (), emit (ConnClose c)
                (if c < length (conns w)
                 then w\<lparr>conns := (conns w)[c := (conns w ! c)\<lparr>closed := True\<rparr>]\<rparr>
                 else w))"

definition open_file :: "string \<Rightarrow> ('srv, string) action" where
  "open_file name w =
     (case files w name of
        None \<Rightarrow> (Inl (FileNotFoundError name), emit (Open name (Some (FileNotFoundError name))) w)
      | Some f \<Rightarrow> (Inr name, emit (Open name None) w))"

definition file_read :: "string \<Rightarrow> ('srv, string) action" where
  "file_read name w =
     (case files w name of
        Some (Readable text) \<Rightarrow> (Inr text, emit (Read name None) w)
      | Some (Unreadable msg) \<Rightarrow> (Inl (OSError msg), emit (Read name (Some (OSError msg))) w)
      | None \<Rightarrow> (Inl (OSError name), emit (Read name (Some (OSError name))) w))"

section \<open>The handlers\<close>

definition create :: "'srv driver \<Rightarrow> 'ev \<Rightarrow> 'ctx \<Rightarrow> ('srv, unit) action" where
  "create drv event context =
     and_then (logger_info ''Connecting to db...'') (\<lambda>_.
     and_then (os_getenv ''CLAY_DATABASE_USER'') (\<lambda>user.
     and_then (os_getenv ''CLAY_DATABASE_PASSWORD'') (\<lambda>password.
     and_then (os_getenv ''CLAY_DATABASE_HOST'') (\<lambda>host.
     and_then (os_getenv ''CLAY_DATABASE_HOST_PORT'') (\<lambda>port.
     and_then (os_getenv ''CLAY_DATABASE_NAME'') (\<lambda>dbname.
     and_then (logger_info (''user='' @ py_str user @ '', host='' @ py_str host
                 @ '', port='' @ py_str port @ '', dbname='' @ py_str dbname)) (\<lambda>_.
     and_then (psycopg2_connect drv
                 \<lparr>user = user, password = password, host = host, port = port,
                  database = Some ''postgres''\<rparr>) (\<lambda>conn.
     and_then (set_isolation_level conn ISOLATION_LEVEL_AUTOCOMMIT) (\<lambda>_.
     and_then (logger_info ''Connected to PostgreSQL instance.'') (\<lambda>_.
     and_then (logger_info ''Reading initialization SQL...'') (\<lambda>_.
     and_then (open_file ''index.sql'') (\<lambda>sql_file.
     and_then (file_read sql_file) (\<lambda>sql.
     and_then (logger_info (''SQL: '' @ sql)) (\<lambda>_.
     and_then (cursor conn) (\<lambda>cur.
     and_then (logger_info (''Creating database '' @ py_str dbname @ ''...'')) (\<lambda>_.
     and_then (cursor_execute drv cur (''CREATE DATABASE '' @ py_str dbname @ '';'')) (\<lambda>_.
     and_then (cursor_close cur) (\<lambda>_.
     and_then (conn_close conn) (\<lambda>_.
     and_then (logger_info (''Reconnecting using '' @ py_str dbname @ ''...'')) (\<lambda>_.
     and_then (psycopg2_connect drv
                 \<lparr>user = user, password = password, host = host, port = port,
                  database = dbname\<rparr>) (\<lambda>conn2.
     and_then (set_isolation_level conn2 ISOLATION_LEVEL_AUTOCOMMIT) (\<lambda>_.
     and_then (logger_info ''Executing initialization script...'') (\<lambda>_.
     and_then (cursor conn2) (\<lambda>cur2.
     and_then (cursor_execute drv cur2 sql) (\<lambda>_.
     and_then (cursor_close cur2) (\<lambda>_.
     and_then (conn_close conn2) (\<lambda>_.
     logger_info ''Done.'')))))))))))))))))))))))))))"

definition no_op :: "'ev \<Rightarrow> 'ctx \<Rightarrow> ('srv, unit) action" where
  "no_op event context w = (Inr (), w)"

text \<open>The decorators \<^verbatim>\<open>@helper.create\<close>, \<^verbatim>\<open>@helper.update\<close> and \<^verbatim>\<open>@helper.delete\<close> register
  one callback per request type; \<open>no_op\<close> carries the last two.\<close>

datatype request_type = Create | Update | Delete

definition registered :: "'srv driver \<Rightarrow> request_type \<Rightarrow> 'ev \<Rightarrow> 'ctx \<Rightarrow> ('srv, unit) action" where
  "registered drv rt = (case rt of Create \<Rightarrow> create drv | Update \<Rightarrow> no_op | Delete \<Rightarrow> no_op)"

text \<open>The entry point logs and hands over to the lifecycle adapter, a library object that
  is taken as a parameter here.\<close>

definition handler :: "('ev \<Rightarrow> 'ctx \<Rightarrow> ('srv, unit) action) \<Rightarrow> 'ev \<Rightarrow> 'ctx \<Rightarrow> ('srv, unit) action" where
  "handler helper event context =
     and_then (logger_info ''aws-cf-func invoked'') (\<lambda>_. helper event context)"

section \<open>Reading a trace\<close>

fun is_db_call :: "event \<Rightarrow> bool" where
  "is_db_call (Connect _ _) = True"
| "is_db_call (SetIsolationLevel _ _) = True"
| "is_db_call (Cursor _) = True"
| "is_db_call (Execute _ _ _) = True"
| "is_db_call (CursorClose _) = True"
| "is_db_call (ConnClose _) = True"
| "is_db_call _ = False"

definition db_calls :: "event list \<Rightarrow> event list" where
  "db_calls t = filter is_db_call t"

fun is_execute :: "event \<Rightarrow> bool" where
  "is_execute (Execute _ _ _) = True"
| "is_execute _ = False"

fun is_file_call :: "event \<Rightarrow> bool" where
  "is_file_call (Open _ _) = True"
| "is_file_call (Read _ _) = True"
| "is_file_call _ = False"

text \<open>The statements sent over connection \<open>c\<close>, in order.\<close>

fun statement_on :: "nat \<Rightarrow> event \<Rightarrow> string list" where
  "statement_on c (Execute c' stmt _) = (if c' = c then [stmt] else [])"
| "statement_on c _ = []"

definition statements_on :: "nat \<Rightarrow> event list \<Rightarrow> string list" where
  "statements_on c t = concat (map (statement_on c) t)"

fun is_close :: "event \<Rightarrow> bool" where
  "is_close (ConnClose _) = True"
| "is_close _ = False"

fun logged :: "event \<Rightarrow> string list" where
  "logged (Log msg) = [msg]"
| "logged _ = []"

definition log_output :: "event list \<Rightarrow> string list" where
  "log_output t = concat (map logged t)"

text \<open>The exception a call raised, if it raised one.\<close>

fun raised :: "event \<Rightarrow> exn option" where
  "raised (Connect _ r) = r"
| "raised (Open _ r) = r"
| "raised (Read _ r) = r"
| "raised (Execute _ _ r) = r"
| "raised _ = None"

text \<open>The events an invocation added to the trace it started from.\<close>

definition new_events :: "'srv world \<Rightarrow> 'srv world \<Rightarrow> event list" where
  "new_events w w' = drop (length (trace w)) (trace w')"

text \<open>The two argument sets the handler connects with, and a connection in the state the
  handler executes on.\<close>

abbreviation getenv_params :: "'srv world \<Rightarrow> string option \<Rightarrow> conn_params" where
  "getenv_params w db \<equiv>
     \<lparr>user = environ w ''CLAY_DATABASE_USER'', password = environ w ''CLAY_DATABASE_PASSWORD'',
      host = environ w ''CLAY_DATABASE_HOST'', port = environ w ''CLAY_DATABASE_HOST_PORT'',
      database = db\<rparr>"

abbreviation autocommit_conn :: "conn_params \<Rightarrow> connection" where
  "autocommit_conn ps \<equiv> \<lparr>params = ps, isolation = ISOLATION_LEVEL_AUTOCOMMIT, closed = False\<rparr>"

abbreviation closed_conn :: "conn_params \<Rightarrow> connection" where
  "closed_conn ps \<equiv> \<lparr>params = ps, isolation = ISOLATION_LEVEL_AUTOCOMMIT, closed = True\<rparr>"

text \<open>The calls of \<open>create\<close> up to each of the calls that can raise, all earlier ones having
  succeeded.\<close>

abbreviation admin_params :: "'srv world \<Rightarrow> conn_params" where
  "admin_params w \<equiv> getenv_params w (Some ''postgres'')"

abbreviation target_params :: "'srv world \<Rightarrow> conn_params" where
  "target_params w \<equiv> getenv_params w (environ w ''CLAY_DATABASE_NAME'')"

abbreviation create_database_stmt :: "'srv world \<Rightarrow> string" where
  "create_database_stmt w \<equiv> ''CREATE DATABASE '' @ py_str (environ w ''CLAY_DATABASE_NAME'') @ '';''"

abbreviation before_connect :: "'srv world \<Rightarrow> event list" where
  "before_connect w \<equiv>
     [Log ''Connecting to db...'',
      Getenv ''CLAY_DATABASE_USER'' (environ w ''CLAY_DATABASE_USER''),
      Getenv ''CLAY_DATABASE_PASSWORD'' (environ w ''CLAY_DATABASE_PASSWORD''),
      Getenv ''CLAY_DATABASE_HOST'' (environ w ''CLAY_DATABASE_HOST''),
      Getenv ''CLAY_DATABASE_HOST_PORT'' (environ w ''CLAY_DATABASE_HOST_PORT''),
      Getenv ''CLAY_DATABASE_NAME'' (environ w ''CLAY_DATABASE_NAME''),
      Log (''user='' @ py_str (environ w ''CLAY_DATABASE_USER'')
           @ '', host='' @ py_str (environ w ''CLAY_DATABASE_HOST'')
           @ '', port='' @ py_str (environ w ''CLAY_DATABASE_HOST_PORT'')
           @ '', dbname='' @ py_str (environ w ''CLAY_DATABASE_NAME''))]"

abbreviation before_open :: "'srv world \<Rightarrow> event list" where
  "before_open w \<equiv>
     before_connect w @
     [Connect (admin_params w) None,
      SetIsolationLevel (length (conns w)) ISOLATION_LEVEL_AUTOCOMMIT,
      Log ''Connected to PostgreSQL instance.'',
      Log ''Reading initialization SQL...'']"

abbreviation before_create_database :: "'srv world \<Rightarrow> string \<Rightarrow> event list" where
  "before_create_database w sql \<equiv>
     before_open w @
     [Open ''index.sql'' None, Read ''index.sql'' None, Log (''SQL: '' @ sql),
      Cursor (length (conns w)),
      Log (''Creating database '' @ py_str (environ w ''CLAY_DATABASE_NAME'') @ ''...'')]"

abbreviation before_reconnect :: "'srv world \<Rightarrow> string \<Rightarrow> event list" where
  "before_reconnect w sql \<equiv>
     before_create_database w sql @
     [Execute (length (conns w)) (create_database_stmt w) None,
      CursorClose (length (conns w)), ConnClose (length (conns w)),
      Log (''Reconnecting using '' @ py_str (environ w ''CLAY_DATABASE_NAME'') @ ''...'')]"

abbreviation before_script :: "'srv world \<Rightarrow> string \<Rightarrow> event list" where
  "before_script w sql \<equiv>
     before_reconnect w sql @
     [Connect (target_params w) None,
      SetIsolationLevel (Suc (length (conns w))) ISOLATION_LEVEL_AUTOCOMMIT,
      Log ''Executing initialization script...'',
      Cursor (Suc (length (conns w)))]"

text \<open>The messages of a complete run, built from what they are formatted from: four
  variables of the environment and the text of the script.\<close>

definition log_lines ::
  "string option \<Rightarrow> string option \<Rightarrow> string option \<Rightarrow> string option \<Rightarrow> string \<Rightarrow> string list" where
  "log_lines usr hst prt dbname sql =
     [''Connecting to db...'',
      ''user='' @ py_str usr @ '', host='' @ py_str hst @ '', port='' @ py_str prt
        @ '', dbname='' @ py_str dbname,
      ''Connected to PostgreSQL instance.'',
      ''Reading initialization SQL...'',
      ''SQL: '' @ sql,
      ''Creating database '' @ py_str dbname @ ''...'',
      ''Reconnecting using '' @ py_str dbname @ ''...'',
      ''Executing initialization script...'',
      ''Done.'']"

definition script_text :: "'srv world \<Rightarrow> string" where
  "script_text w = (case files w ''index.sql'' of Some (Readable sql) \<Rightarrow> sql | _ \<Rightarrow> [])"

section \<open>A small server to run the handler against\<close>

text \<open>
  A toy PostgreSQL for concrete runs: the server is the list of its databases, each with
  the scripts executed in it. It admits the user admin with password x to a database that
  exists, refuses an empty query, refuses CREATE DATABASE outside autocommit or for a name
  that is taken, and otherwise records the statement in the connected database.
\<close>

type_synonym toy_server = "(string \<times> string list) list"

definition toy_connect :: "conn_params \<Rightarrow> toy_server \<Rightarrow> exn option \<times> toy_server" where
  "toy_connect ps s =
     (if user ps = Some ''admin'' \<and> password ps = Some ''x''
      then (case database ps of
              None \<Rightarrow> (Some (OperationalError ''no database''), s)
            | Some d \<Rightarrow>
                if d \<in> set (map fst s) then (None, s)
                else (Some (OperationalError ''database does not exist''), s))
      else (Some (OperationalError ''password authentication failed''), s))"

definition toy_execute :: "connection \<Rightarrow> string \<Rightarrow> toy_server \<Rightarrow> exn option \<times> toy_server" where
  "toy_execute c stmt s =
     (if stmt = [] then (Some (DatabaseError ''empty query''), s)
      else if take 16 stmt = ''CREATE DATABASE ''
      then (let name = takeWhile (\<lambda>ch. ch \<noteq> CHR '';'') (drop 16 stmt) in
            if isolation c \<noteq> ISOLATION_LEVEL_AUTOCOMMIT
            then (Some (DatabaseError ''CREATE DATABASE cannot run inside a transaction block''), s)
            else if name \<in> set (map fst s)
            then (Some (DuplicateDatabase name), s)
            else (None, s @ [(name, [])]))
      else (None, map (\<lambda>(d, h). if Some d = database (params c) then (d, h @ [stmt]) else (d, h)) s))"

definition toy_driver :: "toy_server driver" where
  "toy_driver = \<lparr>drv_connect = toy_connect, drv_execute = toy_execute\<rparr>"

text \<open>The environment and the script of the concrete scenario: user admin, password x,
  host db.local, port 5432, database appdb, and a one-table script.\<close>

definition scenario_env :: "string \<rightharpoonup> string" where
  "scenario_env =
     [''CLAY_DATABASE_USER'' \<mapsto> ''admin'', ''CLAY_DATABASE_PASSWORD'' \<mapsto> ''x'',
      ''CLAY_DATABASE_HOST'' \<mapsto> ''db.local'', ''CLAY_DATABASE_HOST_PORT'' \<mapsto> ''5432'',
      ''CLAY_DATABASE_NAME'' \<mapsto> ''appdb'']"

definition scenario_world :: "toy_server world" where
  "scenario_world =
     \<lparr>environ = scenario_env,
      files = [''index.sql'' \<mapsto> Readable ''CREATE TABLE t (id int);''],
      server = [(''postgres'', [])], conns = [], trace = []\<rparr>"

text \<open>Variations of the scenario: the database is already there; the script is empty (a
  query the server refuses); the script is missing; the script cannot be read; the password
  is wrong and equal to the user name; the database name carries a second statement; no
  variable is set at all.\<close>

definition taken_world :: "toy_server world" where
  "taken_world = scenario_world\<lparr>server := [(''postgres'', []), (''appdb'', [])]\<rparr>"

definition empty_script_world :: "toy_server world" where
  "empty_script_world = scenario_world\<lparr>files := [''index.sql'' \<mapsto> Readable []]\<rparr>"

definition no_script_world :: "toy_server world" where
  "no_script_world = scenario_world\<lparr>files := Map.empty\<rparr>"

definition bad_script_world :: "toy_server world" where
  "bad_script_world = scenario_world\<lparr>files := [''index.sql'' \<mapsto> Unreadable ''invalid start byte'']\<rparr>"

definition same_password_world :: "toy_server world" where
  "same_password_world =
     scenario_world\<lparr>environ := scenario_env(''CLAY_DATABASE_PASSWORD'' \<mapsto> ''admin'')\<rparr>"

definition injection_world :: "toy_server world" where
  "injection_world =
     scenario_world\<lparr>environ :=
       scenario_env(''CLAY_DATABASE_NAME'' \<mapsto> ''appdb; DROP DATABASE postgres'')\<rparr>"

definition unset_world :: "toy_server world" where
  "unset_world = scenario_world\<lparr>environ := Map.empty\<rparr>"

section \<open>Unfolding sets\<close>

lemmas prims = and_then_def emit_def logger_info_def os_getenv_def psycopg2_connect_def
  usable_def set_isolation_level_def cursor_def cursor_execute_def cursor_close_def
  conn_close_def open_file_def file_read_def

lemmas readers = new_events_def db_calls_def log_output_def statements_on_def

lemmas toy = toy_driver_def toy_connect_def toy_execute_def scenario_world_def scenario_env_def
  taken_world_def empty_script_world_def no_script_world_def bad_script_world_def
  same_password_world_def injection_world_def unset_world_def Let_def py_str_def

section \<open>The seven runs of create\<close>

text \<open>
  \<open>create\<close> is a straight line with six calls that can raise: the first connect, opening
  and reading the script, the CREATE DATABASE statement, the second connect and the script's
  execution. A run is fixed by the first of them that fails, if any. Each lemma gives the
  result and the whole final world of one run.
\<close>

lemma run_connect_fails:
  assumes "drv_connect drv (admin_params w) (server w) = (Some e, s1)"
  shows "create drv ev ctx w =
           (Inl e, w\<lparr>server := s1,
                     trace := trace w @ before_connect w @ [Connect (admin_params w) (Some e)]\<rparr>)"
  using assms by (simp add: create_def prims)

lemma run_open_fails:
  assumes "drv_connect drv (admin_params w) (server w) = (None, s1)"
    and "files w ''index.sql'' = None"
  shows "create drv ev ctx w =
           (Inl (FileNotFoundError ''index.sql''),
            w\<lparr>server := s1, conns := conns w @ [autocommit_conn (admin_params w)],
              trace := trace w @ before_open w @
                [Open ''index.sql'' (Some (FileNotFoundError ''index.sql''))]\<rparr>)"
  using assms by (simp add: create_def prims nth_append list_update_append)

lemma run_read_fails:
  assumes "drv_connect drv (admin_params w) (server w) = (None, s1)"
    and "files w ''index.sql'' = Some (Unreadable msg)"
  shows "create drv ev ctx w =
           (Inl (OSError msg),
            w\<lparr>server := s1, conns := conns w @ [autocommit_conn (admin_params w)],
              trace := trace w @ before_open w @
                [Open ''index.sql'' None, Read ''index.sql'' (Some (OSError msg))]\<rparr>)"
  using assms by (simp add: create_def prims nth_append list_update_append)

lemma run_create_database_fails:
  assumes "drv_connect drv (admin_params w) (server w) = (None, s1)"
    and "files w ''index.sql'' = Some (Readable sql)"
    and "drv_execute drv (autocommit_conn (admin_params w)) (create_database_stmt w) s1 = (Some e, s2)"
  shows "create drv ev ctx w =
           (Inl e, w\<lparr>server := s2, conns := conns w @ [autocommit_conn (admin_params w)],
                     trace := trace w @ before_create_database w sql @
                       [Execute (length (conns w)) (create_database_stmt w) (Some e)]\<rparr>)"
  using assms by (simp add: create_def prims nth_append list_update_append)

lemma run_reconnect_fails:
  assumes "drv_connect drv (admin_params w) (server w) = (None, s1)"
    and "files w ''index.sql'' = Some (Readable sql)"
    and "drv_execute drv (autocommit_conn (admin_params w)) (create_database_stmt w) s1 = (None, s2)"
    and "drv_connect drv (target_params w) s2 = (Some e, s3)"
  shows "create drv ev ctx w =
           (Inl e, w\<lparr>server := s3, conns := conns w @ [closed_conn (admin_params w)],
                     trace := trace w @ before_reconnect w sql @
                       [Connect (target_params w) (Some e)]\<rparr>)"
  using assms by (simp add: create_def prims nth_append list_update_append)

lemma run_script_fails:
  assumes "drv_connect drv (admin_params w) (server w) = (None, s1)"
    and "files w ''index.sql'' = Some (Readable sql)"
    and "drv_execute drv (autocommit_conn (admin_params w)) (create_database_stmt w) s1 = (None, s2)"
    and "drv_connect drv (target_params w) s2 = (None, s3)"
    and "drv_execute drv (autocommit_conn (target_params w)) sql s3 = (Some e, s4)"
  shows "create drv ev ctx w =
           (Inl e, w\<lparr>server := s4,
                     conns := conns w @ [closed_conn (admin_params w), autocommit_conn (target_params w)],
                     trace := trace w @ before_script w sql @
                       [Execute (Suc (length (conns w))) sql (Some e)]\<rparr>)"
  using assms by (simp add: create_def prims nth_append list_update_append)

lemma run_succeeds:
  assumes "drv_connect drv (admin_params w) (server w) = (None, s1)"
    and "files w ''index.sql'' = Some (Readable sql)"
    and "drv_execute drv (autocommit_conn (admin_params w)) (create_database_stmt w) s1 = (None, s2)"
    and "drv_connect drv (target_params w) s2 = (None, s3)"
    and "drv_execute drv (autocommit_conn (target_params w)) sql s3 = (None, s4)"
  shows "create drv ev ctx w =
           (Inr (), w\<lparr>server := s4,
                      conns := conns w @ [closed_conn (admin_params w), closed_conn (target_params w)],
                      trace := trace w @ before_script w sql @
                        [Execute (Suc (length (conns w))) sql None,
                         CursorClose (Suc (length (conns w))), ConnClose (Suc (length (conns w))),
                         Log ''Done.'']\<rparr>)"
  using assms by (simp add: create_def prims nth_append list_update_append)

text \<open>The seven runs are all there are.\<close>

lemma create_runs [case_names connect_fails open_fails read_fails create_database_fails
    reconnect_fails script_fails succeeds]:
  obtains e s1 where "drv_connect drv (admin_params w) (server w) = (Some e, s1)"
  | s1 where "drv_connect drv (admin_params w) (server w) = (None, s1)"
      and "files w ''index.sql'' = None"
  | s1 msg where "drv_connect drv (admin_params w) (server w) = (None, s1)"
      and "files w ''index.sql'' = Some (Unreadable msg)"
  | s1 sql e s2 where "drv_connect drv (admin_params w) (server w) = (None, s1)"
      and "files w ''index.sql'' = Some (Readable sql)"
      and "drv_execute drv (autocommit_conn (admin_params w)) (create_database_stmt w) s1 = (Some e, s2)"
  | s1 sql s2 e s3 where "drv_connect drv (admin_params w) (server w) = (None, s1)"
      and "files w ''index.sql'' = Some (Readable sql)"
      and "drv_execute drv (autocommit_conn (admin_params w)) (create_database_stmt w) s1 = (None, s2)"
      and "drv_connect drv (target_params w) s2 = (Some e, s3)"
  | s1 sql s2 s3 e s4 where "drv_connect drv (admin_params w) (server w) = (None, s1)"
      and "files w ''index.sql'' = Some (Readable sql)"
      and "drv_execute drv (autocommit_conn (admin_params w)) (create_database_stmt w) s1 = (None, s2)"
      and "drv_connect drv (target_params w) s2 = (None, s3)"
      and "drv_execute drv (autocommit_conn (target_params w)) sql s3 = (Some e, s4)"
  | s1 sql s2 s3 s4 where "drv_connect drv (admin_params w) (server w) = (None, s1)"
      and "files w ''index.sql'' = Some (Readable sql)"
      and "drv_execute drv (autocommit_conn (admin_params w)) (create_database_stmt w) s1 = (None, s2)"
      and "drv_connect drv (target_params w) s2 = (None, s3)"
      and "drv_execute drv (autocommit_conn (target_params w)) sql s3 = (None, s4)"
proof (cases "drv_connect drv (admin_params w) (server w)")
  case c1: (Pair r1 s1)
  show thesis
  proof (cases r1)
    case (Some e)
    with c1 show thesis using that(1) by simp
  next
    case None
    note c1 = c1 [unfolded None]
    show thesis
    proof (cases "files w ''index.sql''")
      case None
      with c1 show thesis using that(2) by simp
    next
      case (Some body)
      show thesis
      proof (cases body)
        case (Unreadable msg)
        with c1 Some show thesis using that(3) by simp
      next
        case (Readable sql)
        note f = Some [unfolded Readable]
        show thesis
        proof (cases "drv_execute drv (autocommit_conn (admin_params w)) (create_database_stmt w) s1")
          case e1: (Pair r2 s2)
          show thesis
          proof (cases r2)
            case (Some e)
            with c1 f e1 show thesis using that(4) by simp
          next
            case None
            note e1 = e1 [unfolded None]
            show thesis
            proof (cases "drv_connect drv (target_params w) s2")
              case c2: (Pair r3 s3)
              show thesis
              proof (cases r3)
                case (Some e)
                with c1 f e1 c2 show thesis using that(5) by simp
              next
                case None
                note c2 = c2 [unfolded None]
                show thesis
                proof (cases "drv_execute drv (autocommit_conn (target_params w)) sql s3")
                  case e2: (Pair r4 s4)
                  show thesis
                  proof (cases r4)
                    case (Some e)
                    with c1 f e1 c2 e2 show thesis using that(6) by simp
                  next
                    case None
                    with c1 f e1 c2 e2 show thesis using that(7) by simp
                  qed
                qed
              qed
            qed
          qed
        qed
      qed
    qed
  qed
qed

section \<open>The toy server's answers\<close>

lemma scenario_connect:
  "drv_connect toy_driver (admin_params scenario_world) (server scenario_world)
     = (None, [(''postgres'', [])])"
  by (simp add: toy)

lemma scenario_file:
  "files scenario_world ''index.sql'' = Some (Readable ''CREATE TABLE t (id int);'')"
  by (simp add: toy)

lemma scenario_create_database:
  "drv_execute toy_driver (autocommit_conn (admin_params scenario_world))
     (create_database_stmt scenario_world) [(''postgres'', [])]
     = (None, [(''postgres'', []), (''appdb'', [])])"
  by (simp add: toy)

lemma scenario_reconnect:
  "drv_connect toy_driver (target_params scenario_world) [(''postgres'', []), (''appdb'', [])]
     = (None, [(''postgres'', []), (''appdb'', [])])"
  by (simp add: toy)

lemma scenario_script:
  "drv_execute toy_driver (autocommit_conn (target_params scenario_world))
     ''CREATE TABLE t (id int);'' [(''postgres'', []), (''appdb'', [])]
     = (None, [(''postgres'', []), (''appdb'', [''CREATE TABLE t (id int);''])])"
  by (simp add: toy)

lemma taken_connect:
  "drv_connect toy_driver (admin_params taken_world) (server taken_world)
     = (None, [(''postgres'', []), (''appdb'', [])])"
  by (simp add: toy)

lemma taken_file:
  "files taken_world ''index.sql'' = Some (Readable ''CREATE TABLE t (id int);'')"
  by (simp add: toy)

lemma taken_create_database:
  "drv_execute toy_driver (autocommit_conn (admin_params taken_world))
     (create_database_stmt taken_world) [(''postgres'', []), (''appdb'', [])]
     = (Some (DuplicateDatabase ''appdb''), [(''postgres'', []), (''appdb'', [])])"
  by (simp add: toy)

lemma empty_script_connect:
  "drv_connect toy_driver (admin_params empty_script_world) (server empty_script_world)
     = (None, [(''postgres'', [])])"
  by (simp add: toy)

lemma empty_script_file:
  "files empty_script_world ''index.sql'' = Some (Readable [])"
  by (simp add: toy)

lemma empty_script_create_database:
  "drv_execute toy_driver (autocommit_conn (admin_params empty_script_world))
     (create_database_stmt empty_script_world) [(''postgres'', [])]
     = (None, [(''postgres'', []), (''appdb'', [])])"
  by (simp add: toy)

lemma empty_script_reconnect:
  "drv_connect toy_driver (target_params empty_script_world) [(''postgres'', []), (''appdb'', [])]
     = (None, [(''postgres'', []), (''appdb'', [])])"
  by (simp add: toy)

lemma empty_script_script:
  "drv_execute toy_driver (autocommit_conn (target_params empty_script_world))
     [] [(''postgres'', []), (''appdb'', [])]
     = (Some (DatabaseError ''empty query''), [(''postgres'', []), (''appdb'', [])])"
  by (simp add: toy)

lemma no_script_connect:
  "drv_connect toy_driver (admin_params no_script_world) (server no_script_world)
     = (None, [(''postgres'', [])])"
  by (simp add: toy)

lemma no_script_file: "files no_script_world ''index.sql'' = None"
  by (simp add: toy)

lemma bad_script_connect:
  "drv_connect toy_driver (admin_params bad_script_world) (server bad_script_world)
     = (None, [(''postgres'', [])])"
  by (simp add: toy)

lemma bad_script_file:
  "files bad_script_world ''index.sql'' = Some (Unreadable ''invalid start byte'')"
  by (simp add: toy)

lemma same_password_connect:
  "drv_connect toy_driver (admin_params same_password_world) (server same_password_world)
     = (Some (OperationalError ''password authentication failed''), [(''postgres'', [])])"
  by (simp add: toy)

lemma injection_connect:
  "drv_connect toy_driver (admin_params injection_world) (server injection_world)
     = (None, [(''postgres'', [])])"
  by (simp add: toy)

lemma injection_file:
  "files injection_world ''index.sql'' = Some (Readable ''CREATE TABLE t (id int);'')"
  by (simp add: toy)

lemma unset_connect:
  "drv_connect toy_driver (admin_params unset_world) (server unset_world)
     = (Some (OperationalError ''password authentication failed''), [(''postgres'', [])])"
  by (simp add: toy)

section \<open>Facts of every run\<close>

text \<open>Whatever happens later, a run starts by reading the five variables, logging four of
  them and attempting the first connection with what it read.\<close>

lemma first_connect:
  "\<exists>r rest. new_events w (snd (create drv ev ctx w))
       = before_connect w @ Connect (admin_params w) r # rest"
proof (cases rule: create_runs [of drv w])
  case (connect_fails e s1)
  from run_connect_fails [where ev = ev and ctx = ctx, OF this] show ?thesis
    by (simp add: readers)
next
  case (open_fails s1)
  from run_open_fails [where ev = ev and ctx = ctx, OF this] show ?thesis
    by (simp add: readers)
next
  case (read_fails s1 msg)
  from run_read_fails [where ev = ev and ctx = ctx, OF this] show ?thesis
    by (simp add: readers)
next
  case (create_database_fails s1 sql e s2)
  from run_create_database_fails [where ev = ev and ctx = ctx, OF this] show ?thesis
    by (simp add: readers)
next
  case (reconnect_fails s1 sql s2 e s3)
  from run_reconnect_fails [where ev = ev and ctx = ctx, OF this] show ?thesis
    by (simp add: readers)
next
  case (script_fails s1 sql s2 s3 e s4)
  from run_script_fails [where ev = ev and ctx = ctx, OF this] show ?thesis
    by (simp add: readers)
next
  case (succeeds s1 sql s2 s3 s4)
  from run_succeeds [where ev = ev and ctx = ctx, OF this] show ?thesis
    by (simp add: readers)
qed

text \<open>What a run logs is an initial part of \<open>log_lines\<close>, at the four variables and the
  script of the world it starts in.\<close>

lemma log_is_prefix:
  "prefix (log_output (new_events w (snd (create drv ev ctx w))))
     (log_lines (environ w ''CLAY_DATABASE_USER'') (environ w ''CLAY_DATABASE_HOST'')
        (environ w ''CLAY_DATABASE_HOST_PORT'') (environ w ''CLAY_DATABASE_NAME'') (script_text w))"
proof (cases rule: create_runs [of drv w])
  case (connect_fails e s1)
  from run_connect_fails [where ev = ev and ctx = ctx, OF this] connect_fails show ?thesis
    by (simp add: readers log_lines_def script_text_def)
next
  case (open_fails s1)
  from run_open_fails [where ev = ev and ctx = ctx, OF this] open_fails show ?thesis
    by (simp add: readers log_lines_def script_text_def)
next
  case (read_fails s1 msg)
  from run_read_fails [where ev = ev and ctx = ctx, OF this] read_fails show ?thesis
    by (simp add: readers log_lines_def script_text_def)
next
  case (create_database_fails s1 sql e s2)
  from run_create_database_fails [where ev = ev and ctx = ctx, OF this] create_database_fails
  show ?thesis
    by (simp add: readers log_lines_def script_text_def)
next
  case (reconnect_fails s1 sql s2 e s3)
  from run_reconnect_fails [where ev = ev and ctx = ctx, OF this] reconnect_fails show ?thesis
    by (simp add: readers log_lines_def script_text_def)
next
  case (script_fails s1 sql s2 s3 e s4)
  from run_script_fails [where ev = ev and ctx = ctx, OF this] script_fails show ?thesis
    by (simp add: readers log_lines_def script_text_def)
next
  case (succeeds s1 sql s2 s3 s4)
  from run_succeeds [where ev = ev and ctx = ctx, OF this] succeeds show ?thesis
    by (simp add: readers log_lines_def script_text_def)
qed

text \<open>A successful read of the script is followed by the log of its text.\<close>

lemma read_is_logged:
  assumes "Read ''index.sql'' None \<in> set (new_events w (snd (create drv ev ctx w)))"
  shows "\<exists>sql. files w ''index.sql'' = Some (Readable sql) \<and>
           ''SQL: '' @ sql \<in> set (log_output (new_events w (snd (create drv ev ctx w))))"
proof (cases rule: create_runs [of drv w])
  case (connect_fails e s1)
  from run_connect_fails [where ev = ev and ctx = ctx, OF this] assms show ?thesis
    by (simp add: readers)
next
  case (open_fails s1)
  from run_open_fails [where ev = ev and ctx = ctx, OF this] assms show ?thesis
    by (simp add: readers)
next
  case (read_fails s1 msg)
  from run_read_fails [where ev = ev and ctx = ctx, OF this] assms show ?thesis
    by (simp add: readers)
next
  case (create_database_fails s1 sql e s2)
  from run_create_database_fails [where ev = ev and ctx = ctx, OF this] create_database_fails
  show ?thesis
    by (simp add: readers)
next
  case (reconnect_fails s1 sql s2 e s3)
  from run_reconnect_fails [where ev = ev and ctx = ctx, OF this] reconnect_fails show ?thesis
    by (simp add: readers)
next
  case (script_fails s1 sql s2 s3 e s4)
  from run_script_fails [where ev = ev and ctx = ctx, OF this] script_fails show ?thesis
    by (simp add: readers)
next
  case (succeeds s1 sql s2 s3 s4)
  from run_succeeds [where ev = ev and ctx = ctx, OF this] succeeds show ?thesis
    by (simp add: readers)
qed

section \<open>The claims\<close>

subsection \<open>The whole bootstrap\<close>

text \<open>
  C1 promises the whole sequence whenever the credentials are valid and the database does
  not exist yet. That is not enough for the code to get through: the script must be there
  and the server must accept it. On the toy server, with the credentials accepted and appdb
  not yet present, a missing \<^verbatim>\<open>index.sql\<close> makes \<open>create\<close> fail before it sends any statement,
  and a script the server refuses makes it fail after the database was created, the second
  connection never closed.
\<close>

theorem valid_credentials_do_not_suffice:
  "drv_connect toy_driver (admin_params no_script_world) (server no_script_world)
     = (None, [(''postgres'', [])]) \<and>
   ''appdb'' \<notin> set (map fst (server no_script_world)) \<and>
   fst (create toy_driver () () no_script_world) = Inl (FileNotFoundError ''index.sql'') \<and>
   filter is_execute (trace (snd (create toy_driver () () no_script_world))) = [] \<and>
   drv_connect toy_driver (admin_params empty_script_world) (server empty_script_world)
     = (None, [(''postgres'', [])]) \<and>
   ''appdb'' \<notin> set (map fst (server empty_script_world)) \<and>
   fst (create toy_driver () () empty_script_world) = Inl (DatabaseError ''empty query'') \<and>
   ConnClose 1 \<notin> set (trace (snd (create toy_driver () () empty_script_world)))"
proof -
  have "''appdb'' \<notin> set (map fst (server no_script_world))"
    and "''appdb'' \<notin> set (map fst (server empty_script_world))"
    and "trace no_script_world = []" and "trace empty_script_world = []"
    and "conns empty_script_world = []"
    by (simp_all add: toy)
  then show ?thesis
    using no_script_connect empty_script_connect
      run_open_fails [where ev = "()" and ctx = "()", OF no_script_connect no_script_file]
      run_script_fails [where ev = "()" and ctx = "()",
        OF empty_script_connect empty_script_file empty_script_create_database
          empty_script_reconnect empty_script_script]
    by simp
qed

text \<open>
  C1, as amended. When the database name is set, both connection attempts are accepted,
  \<^verbatim>\<open>index.sql\<close> can be read and the server accepts both statements, \<open>create\<close> returns normally
  and the driver calls it made are, in this order and with nothing else: connect to postgres,
  switch to autocommit, execute the CREATE DATABASE statement for the configured name, close;
  connect to the new database, switch to autocommit, execute the whole script as one
  statement, close. Both connections end closed, and the server is left in the state that one
  execution of the script produced.
\<close>

theorem create_bootstrap_sequence:
  assumes "environ w ''CLAY_DATABASE_NAME'' = Some name"
    and "drv_connect drv (getenv_params w (Some ''postgres'')) (server w) = (None, s1)"
    and "files w ''index.sql'' = Some (Readable sql)"
    and "drv_execute drv (autocommit_conn (getenv_params w (Some ''postgres'')))
           (''CREATE DATABASE '' @ name @ '';'') s1 = (None, s2)"
    and "drv_connect drv (getenv_params w (Some name)) s2 = (None, s3)"
    and "drv_execute drv (autocommit_conn (getenv_params w (Some name))) sql s3 = (None, s4)"
  shows "case create drv ev ctx w of (r, w') \<Rightarrow>
           r = Inr () \<and>
           trace w' = trace w @ new_events w w' \<and>
           db_calls (new_events w w') =
             [Connect (getenv_params w (Some ''postgres'')) None,
              SetIsolationLevel (length (conns w)) ISOLATION_LEVEL_AUTOCOMMIT,
              Cursor (length (conns w)),
              Execute (length (conns w)) (''CREATE DATABASE '' @ name @ '';'') None,
              CursorClose (length (conns w)),
              ConnClose (length (conns w)),
              Connect (getenv_params w (Some name)) None,
              SetIsolationLevel (Suc (length (conns w))) ISOLATION_LEVEL_AUTOCOMMIT,
              Cursor (Suc (length (conns w))),
              Execute (Suc (length (conns w))) sql None,
              CursorClose (Suc (length (conns w))),
              ConnClose (Suc (length (conns w)))] \<and>
           conns w' = conns w @ [closed_conn (getenv_params w (Some ''postgres'')),
                                 closed_conn (getenv_params w (Some name))] \<and>
           server w' = s4"
proof -
  have "create drv ev ctx w =
          (Inr (), w\<lparr>server := s4,
                     conns := conns w @ [closed_conn (admin_params w), closed_conn (target_params w)],
                     trace := trace w @ before_script w sql @
                       [Execute (Suc (length (conns w))) sql None,
                        CursorClose (Suc (length (conns w))), ConnClose (Suc (length (conns w))),
                        Log ''Done.'']\<rparr>)"
    using assms by (intro run_succeeds) (simp_all add: py_str_def)
  then show ?thesis
    using assms(1) by (simp add: readers py_str_def)
qed

text \<open>The concrete scenario on the toy server: appdb is created and holds the script once.\<close>

theorem create_bootstrap_sequence_witness:
  "case create toy_driver () () scenario_world of (r, w') \<Rightarrow>
     r = Inr () \<and>
     db_calls (trace w') =
       [Connect \<lparr>user = Some ''admin'', password = Some ''x'', host = Some ''db.local'',
                 port = Some ''5432'', database = Some ''postgres''\<rparr> None,
        SetIsolationLevel 0 ISOLATION_LEVEL_AUTOCOMMIT, Cursor 0,
        Execute 0 ''CREATE DATABASE appdb;'' None, CursorClose 0, ConnClose 0,
        Connect \<lparr>user = Some ''admin'', password = Some ''x'', host = Some ''db.local'',
                 port = Some ''5432'', database = Some ''appdb''\<rparr> None,
        SetIsolationLevel 1 ISOLATION_LEVEL_AUTOCOMMIT, Cursor 1,
        Execute 1 ''CREATE TABLE t (id int);'' None, CursorClose 1, ConnClose 1] \<and>
     server w' = [(''postgres'', []), (''appdb'', [''CREATE TABLE t (id int);''])]"
proof -
  have name: "environ scenario_world ''CLAY_DATABASE_NAME'' = Some ''appdb''"
    by (simp add: toy)
  have "case create toy_driver () () scenario_world of (r, w') \<Rightarrow>
           r = Inr () \<and>
           trace w' = trace scenario_world @ new_events scenario_world w' \<and>
           db_calls (new_events scenario_world w') =
             [Connect (getenv_params scenario_world (Some ''postgres'')) None,
              SetIsolationLevel (length (conns scenario_world)) ISOLATION_LEVEL_AUTOCOMMIT,
              Cursor (length (conns scenario_world)),
              Execute (length (conns scenario_world)) (''CREATE DATABASE '' @ ''appdb'' @ '';'') None,
              CursorClose (length (conns scenario_world)),
              ConnClose (length (conns scenario_world)),
              Connect (getenv_params scenario_world (Some ''appdb'')) None,
              SetIsolationLevel (Suc (length (conns scenario_world))) ISOLATION_LEVEL_AUTOCOMMIT,
              Cursor (Suc (length (conns scenario_world))),
              Execute (Suc (length (conns scenario_world))) ''CREATE TABLE t (id int);'' None,
              CursorClose (Suc (length (conns scenario_world))),
              ConnClose (Suc (length (conns scenario_world)))] \<and>
           conns w' = conns scenario_world @ [closed_conn (getenv_params scenario_world (Some ''postgres'')),
                                 closed_conn (getenv_params scenario_world (Some ''appdb''))] \<and>
           server w' = [(''postgres'', []), (''appdb'', [''CREATE TABLE t (id int);''])]"
    using scenario_connect scenario_file scenario_create_database scenario_reconnect scenario_script
    by (intro create_bootstrap_sequence [OF name]) (simp_all add: name py_str_def)
  then show ?thesis
    by (simp add: scenario_world_def scenario_env_def split: prod.splits)
qed

subsection \<open>A database that already exists\<close>

text \<open>
  C2 says that, when the database already exists, the script is never read and never
  executed. The second half holds; the first does not: \<open>create\<close> opens and reads
  \<^verbatim>\<open>index.sql\<close> (and logs its text) before it sends CREATE DATABASE. On the toy server with
  appdb already present the run fails with the duplicate-database error and its trace holds
  the read of the script.
\<close>

theorem duplicate_database_script_was_read:
  "fst (create toy_driver () () taken_world) = Inl (DuplicateDatabase ''appdb'') \<and>
   Read ''index.sql'' None \<in> set (trace (snd (create toy_driver () () taken_world)))"
  using run_create_database_fails [where ev = "()" and ctx = "()",
      OF taken_connect taken_file taken_create_database]
  by simp

text \<open>
  C2, as amended. When the database name is set, the first connection is accepted,
  \<^verbatim>\<open>index.sql\<close> can be read and the server answers the CREATE DATABASE statement with a
  duplicate-database error, \<open>create\<close> fails with exactly that error, the failing statement is
  the last thing it did, and the only driver calls are the first connect, the switch to
  autocommit, the cursor and that statement: the first connection is not closed, no second
  connection is opened and the script is never executed. Before the statement, the script
  has been opened once and read once, and its text has been logged once: the log of the run
  is the six messages up to the announcement of the database's creation.
\<close>

theorem duplicate_database_stops_create:
  assumes "environ w ''CLAY_DATABASE_NAME'' = Some name"
    and "drv_connect drv (getenv_params w (Some ''postgres'')) (server w) = (None, s1)"
    and "files w ''index.sql'' = Some (Readable sql)"
    and "drv_execute drv (autocommit_conn (getenv_params w (Some ''postgres'')))
           (''CREATE DATABASE '' @ name @ '';'') s1 = (Some (DuplicateDatabase msg), s2)"
  shows "case create drv ev ctx w of (r, w') \<Rightarrow>
           r = Inl (DuplicateDatabase msg) \<and>
           trace w' = trace w @ new_events w w' \<and>
           db_calls (new_events w w') =
             [Connect (getenv_params w (Some ''postgres'')) None,
              SetIsolationLevel (length (conns w)) ISOLATION_LEVEL_AUTOCOMMIT,
              Cursor (length (conns w)),
              Execute (length (conns w)) (''CREATE DATABASE '' @ name @ '';'')
                (Some (DuplicateDatabase msg))] \<and>
           filter is_file_call (new_events w w') =
             [Open ''index.sql'' None, Read ''index.sql'' None] \<and>
           log_output (new_events w w') =
             [''Connecting to db...'',
              ''user='' @ py_str (environ w ''CLAY_DATABASE_USER'')
                @ '', host='' @ py_str (environ w ''CLAY_DATABASE_HOST'')
                @ '', port='' @ py_str (environ w ''CLAY_DATABASE_HOST_PORT'')
                @ '', dbname='' @ name,
              ''Connected to PostgreSQL instance.'',
              ''Reading initialization SQL...'',
              ''SQL: '' @ sql,
              ''Creating database '' @ name @ ''...''] \<and>
           last (new_events w w') =
             Execute (length (conns w)) (''CREATE DATABASE '' @ name @ '';'')
               (Some (DuplicateDatabase msg)) \<and>
           server w' = s2"
proof -
  have "create drv ev ctx w =
          (Inl (DuplicateDatabase msg),
           w\<lparr>server := s2, conns := conns w @ [autocommit_conn (admin_params w)],
             trace := trace w @ before_create_database w sql @
               [Execute (length (conns w)) (create_database_stmt w) (Some (DuplicateDatabase msg))]\<rparr>)"
    using assms by (intro run_create_database_fails) (simp_all add: py_str_def)
  then show ?thesis
    using assms(1) by (simp add: readers py_str_def)
qed

text \<open>On the toy server with appdb already present.\<close>

theorem duplicate_database_stops_create_witness:
  "case create toy_driver () () taken_world of (r, w') \<Rightarrow>
     r = Inl (DuplicateDatabase ''appdb'') \<and>
     db_calls (trace w') =
       [Connect \<lparr>user = Some ''admin'', password = Some ''x'', host = Some ''db.local'',
                 port = Some ''5432'', database = Some ''postgres''\<rparr> None,
        SetIsolationLevel 0 ISOLATION_LEVEL_AUTOCOMMIT, Cursor 0,
        Execute 0 ''CREATE DATABASE appdb;'' (Some (DuplicateDatabase ''appdb''))] \<and>
     filter is_file_call (trace w') = [Open ''index.sql'' None, Read ''index.sql'' None] \<and>
     log_output (trace w') =
       [''Connecting to db...'', ''user=admin, host=db.local, port=5432, dbname=appdb'',
        ''Connected to PostgreSQL instance.'', ''Reading initialization SQL...'',
        ''SQL: CREATE TABLE t (id int);'', ''Creating database appdb...''] \<and>
     server w' = [(''postgres'', []), (''appdb'', [])]"
proof -
  have name: "environ taken_world ''CLAY_DATABASE_NAME'' = Some ''appdb''"
    by (simp add: toy)
  have "case create toy_driver () () taken_world of (r, w') \<Rightarrow>
           r = Inl (DuplicateDatabase ''appdb'') \<and>
           trace w' = trace taken_world @ new_events taken_world w' \<and>
           db_calls (new_events taken_world w') =
             [Connect (getenv_params taken_world (Some ''postgres'')) None,
              SetIsolationLevel (length (conns taken_world)) ISOLATION_LEVEL_AUTOCOMMIT,
              Cursor (length (conns taken_world)),
              Execute (length (conns taken_world)) (''CREATE DATABASE '' @ ''appdb'' @ '';'')
                (Some (DuplicateDatabase ''appdb''))] \<and>
           filter is_file_call (new_events taken_world w') =
             [Open ''index.sql'' None, Read ''index.sql'' None] \<and>
           log_output (new_events taken_world w') =
             [''Connecting to db...'',
              ''user='' @ py_str (environ taken_world ''CLAY_DATABASE_USER'')
                @ '', host='' @ py_str (environ taken_world ''CLAY_DATABASE_HOST'')
                @ '', port='' @ py_str (environ taken_world ''CLAY_DATABASE_HOST_PORT'')
                @ '', dbname='' @ ''appdb'',
              ''Connected to PostgreSQL instance.'',
              ''Reading initialization SQL...'',
              ''SQL: '' @ ''CREATE TABLE t (id int);'',
              ''Creating database '' @ ''appdb'' @ ''...''] \<and>
           last (new_events taken_world w') =
             Execute (length (conns taken_world)) (''CREATE DATABASE '' @ ''appdb'' @ '';'')
               (Some (DuplicateDatabase ''appdb'')) \<and>
           server w' = [(''postgres'', []), (''appdb'', [])]"
    using taken_connect taken_file taken_create_database
    by (intro duplicate_database_stops_create [OF name]) (simp_all add: name py_str_def)
  then show ?thesis
    by (simp add: taken_world_def scenario_world_def scenario_env_def py_str_def
          split: prod.splits)
qed

subsection \<open>Update and delete\<close>

text \<open>
  C3. The callback registered for update and for delete is \<open>no_op\<close>: for every event and
  context, of any type, it returns normally and leaves the world as it found it, so the
  trace gains no driver call (no connection, no statement) and the server and the
  connections are untouched.
\<close>

theorem update_and_delete_are_no_ops:
  "no_op ev ctx w = (Inr (), w) \<and>
   registered drv Update ev ctx w = (Inr (), w) \<and>
   registered drv Delete ev ctx w = (Inr (), w)"
  by (simp add: registered_def no_op_def)

subsection \<open>A script that fails\<close>

text \<open>
  C4. When CREATE DATABASE succeeded and the server then rejects the script with an error,
  \<open>create\<close> fails with exactly that error and the rejected statement is the last thing it
  did: it sends nothing after it, so no statement drops or repairs the database it created,
  and the server stays in the state the failed script left, which came from the state with
  the new database by that script alone.
\<close>

theorem failed_script_leaves_database:
  assumes "environ w ''CLAY_DATABASE_NAME'' = Some name"
    and "drv_connect drv (getenv_params w (Some ''postgres'')) (server w) = (None, s1)"
    and "files w ''index.sql'' = Some (Readable sql)"
    and "drv_execute drv (autocommit_conn (getenv_params w (Some ''postgres'')))
           (''CREATE DATABASE '' @ name @ '';'') s1 = (None, s2)"
    and "drv_connect drv (getenv_params w (Some name)) s2 = (None, s3)"
    and "drv_execute drv (autocommit_conn (getenv_params w (Some name))) sql s3 = (Some e, s4)"
  shows "case create drv ev ctx w of (r, w') \<Rightarrow>
           r = Inl e \<and>
           trace w' = trace w @ new_events w w' \<and>
           db_calls (new_events w w') =
             [Connect (getenv_params w (Some ''postgres'')) None,
              SetIsolationLevel (length (conns w)) ISOLATION_LEVEL_AUTOCOMMIT,
              Cursor (length (conns w)),
              Execute (length (conns w)) (''CREATE DATABASE '' @ name @ '';'') None,
              CursorClose (length (conns w)),
              ConnClose (length (conns w)),
              Connect (getenv_params w (Some name)) None,
              SetIsolationLevel (Suc (length (conns w))) ISOLATION_LEVEL_AUTOCOMMIT,
              Cursor (Suc (length (conns w))),
              Execute (Suc (length (conns w))) sql (Some e)] \<and>
           last (new_events w w') = Execute (Suc (length (conns w))) sql (Some e) \<and>
           server w' = s4"
proof -
  have "create drv ev ctx w =
          (Inl e, w\<lparr>server := s4,
                    conns := conns w @ [closed_conn (admin_params w), autocommit_conn (target_params w)],
                    trace := trace w @ before_script w sql @
                      [Execute (Suc (length (conns w))) sql (Some e)]\<rparr>)"
    using assms by (intro run_script_fails) (simp_all add: py_str_def)
  then show ?thesis
    using assms(1) by (simp add: readers py_str_def)
qed

text \<open>On the toy server with an empty script, which the server refuses: appdb is still
  there afterwards.\<close>

theorem failed_script_leaves_database_witness:
  "case create toy_driver () () empty_script_world of (r, w') \<Rightarrow>
     r = Inl (DatabaseError ''empty query'') \<and>
     last (trace w') = Execute 1 [] (Some (DatabaseError ''empty query'')) \<and>
     server w' = [(''postgres'', []), (''appdb'', [])]"
proof -
  have name: "environ empty_script_world ''CLAY_DATABASE_NAME'' = Some ''appdb''"
    by (simp add: toy)
  have "case create toy_driver () () empty_script_world of (r, w') \<Rightarrow>
           r = Inl (DatabaseError ''empty query'') \<and>
           trace w' = trace empty_script_world @ new_events empty_script_world w' \<and>
           db_calls (new_events empty_script_world w') =
             [Connect (getenv_params empty_script_world (Some ''postgres'')) None,
              SetIsolationLevel (length (conns empty_script_world)) ISOLATION_LEVEL_AUTOCOMMIT,
              Cursor (length (conns empty_script_world)),
              Execute (length (conns empty_script_world)) (''CREATE DATABASE '' @ ''appdb'' @ '';'') None,
              CursorClose (length (conns empty_script_world)),
              ConnClose (length (conns empty_script_world)),
              Connect (getenv_params empty_script_world (Some ''appdb'')) None,
              SetIsolationLevel (Suc (length (conns empty_script_world))) ISOLATION_LEVEL_AUTOCOMMIT,
              Cursor (Suc (length (conns empty_script_world))),
              Execute (Suc (length (conns empty_script_world))) [] (Some (DatabaseError ''empty query''))] \<and>
           last (new_events empty_script_world w') =
             Execute (Suc (length (conns empty_script_world))) [] (Some (DatabaseError ''empty query'')) \<and>
           server w' = [(''postgres'', []), (''appdb'', [])]"
    using empty_script_connect empty_script_file empty_script_create_database
      empty_script_reconnect empty_script_script
    by (intro failed_script_leaves_database [OF name]) (simp_all add: name py_str_def)
  then show ?thesis
    by (simp add: empty_script_world_def scenario_world_def new_events_def split: prod.splits)
qed

subsection \<open>The text of the CREATE DATABASE statement\<close>

text \<open>
  C5. For every string \<open>name\<close> that \<^verbatim>\<open>CLAY_DATABASE_NAME\<close> holds, once the first connection
  is open and the script is read, the one statement sent over the first connection is the
  text CREATE DATABASE, a blank, the name as it is and a semicolon: nothing is quoted,
  escaped or checked.
\<close>

theorem create_database_statement_verbatim:
  assumes "environ w ''CLAY_DATABASE_NAME'' = Some name"
    and "drv_connect drv (getenv_params w (Some ''postgres'')) (server w) = (None, s1)"
    and "files w ''index.sql'' = Some (Readable sql)"
  shows "statements_on (length (conns w)) (new_events w (snd (create drv ev ctx w)))
           = [''CREATE DATABASE '' @ name @ '';'']"
proof (cases rule: create_runs [of drv w])
  case (create_database_fails s1 sql e s2)
  from run_create_database_fails [where ev = ev and ctx = ctx, OF this] show ?thesis
    using assms(1) by (simp add: readers py_str_def)
next
  case (reconnect_fails s1 sql s2 e s3)
  from run_reconnect_fails [where ev = ev and ctx = ctx, OF this] show ?thesis
    using assms(1) by (simp add: readers py_str_def)
next
  case (script_fails s1 sql s2 s3 e s4)
  from run_script_fails [where ev = ev and ctx = ctx, OF this] show ?thesis
    using assms(1) by (simp add: readers py_str_def)
next
  case (succeeds s1 sql s2 s3 s4)
  from run_succeeds [where ev = ev and ctx = ctx, OF this] show ?thesis
    using assms(1) by (simp add: readers py_str_def)
qed (use assms in simp_all)

text \<open>A name that carries a second statement goes into the text as it is.\<close>

theorem create_database_statement_verbatim_witness:
  "statements_on 0 (trace (snd (create toy_driver () () injection_world)))
     = [''CREATE DATABASE appdb; DROP DATABASE postgres;'']"
proof -
  have name: "environ injection_world ''CLAY_DATABASE_NAME'' = Some ''appdb; DROP DATABASE postgres''"
    by (simp add: toy)
  have "statements_on (length (conns injection_world))
          (new_events injection_world (snd (create toy_driver () () injection_world)))
           = [''CREATE DATABASE '' @ ''appdb; DROP DATABASE postgres'' @ '';'']"
    using injection_connect injection_file
    by (intro create_database_statement_verbatim [OF name]) simp_all
  then show ?thesis
    by (simp add: injection_world_def scenario_world_def new_events_def)
qed

subsection \<open>Faults propagate\<close>

text \<open>
  C6. In every run of \<open>create\<close>, against every driver and from every world: when it returns
  normally no call has raised; when it fails with \<open>e\<close>, exactly one call raised, that call is
  the last entry of the trace and what it raised is \<open>e\<close> itself. So a fault is never caught
  (a run with a failing call fails), never translated (the same exception value comes out),
  never retried and never followed by cleanup (nothing is done after the failing call).
\<close>

theorem create_propagates_every_fault:
  "case create drv ev ctx w of (r, w') \<Rightarrow>
     trace w' = trace w @ new_events w w' \<and>
     (case r of
        Inr u \<Rightarrow> list_all (\<lambda>x. raised x = None) (new_events w w')
      | Inl e \<Rightarrow>
          new_events w w' \<noteq> [] \<and> raised (last (new_events w w')) = Some e \<and>
          list_all (\<lambda>x. raised x = None) (butlast (new_events w w')))"
proof (cases rule: create_runs [of drv w])
  case (connect_fails e s1)
  from run_connect_fails [where ev = ev and ctx = ctx, OF this] show ?thesis
    by (simp add: readers)
next
  case (open_fails s1)
  from run_open_fails [where ev = ev and ctx = ctx, OF this] show ?thesis
    by (simp add: readers)
next
  case (read_fails s1 msg)
  from run_read_fails [where ev = ev and ctx = ctx, OF this] show ?thesis
    by (simp add: readers)
next
  case (create_database_fails s1 sql e s2)
  from run_create_database_fails [where ev = ev and ctx = ctx, OF this] show ?thesis
    by (simp add: readers)
next
  case (reconnect_fails s1 sql s2 e s3)
  from run_reconnect_fails [where ev = ev and ctx = ctx, OF this] show ?thesis
    by (simp add: readers)
next
  case (script_fails s1 sql s2 s3 e s4)
  from run_script_fails [where ev = ev and ctx = ctx, OF this] show ?thesis
    by (simp add: readers)
next
  case (succeeds s1 sql s2 s3 s4)
  from run_succeeds [where ev = ev and ctx = ctx, OF this] show ?thesis
    by (simp add: readers)
qed

text \<open>A wrong password on the toy server: the refusal of the first connection comes out
  as it is.\<close>

theorem create_propagates_every_fault_witness:
  "fst (create toy_driver () () same_password_world)
     = Inl (OperationalError ''password authentication failed'') \<and>
   raised (last (new_events same_password_world (snd (create toy_driver () () same_password_world))))
     = Some (OperationalError ''password authentication failed'')"
proof -
  have r: "fst (create toy_driver () () same_password_world)
             = Inl (OperationalError ''password authentication failed'')"
    using run_connect_fails [where ev = "()" and ctx = "()", OF same_password_connect] by simp
  with create_propagates_every_fault [where drv = toy_driver and ev = "()" and ctx = "()" and w = same_password_world]
  show ?thesis
    by (simp split: prod.splits sum.splits)
qed

subsection \<open>The environment is read on every invocation\<close>

text \<open>
  C7. Every run reads the five variables from the environment of the world it starts in and
  passes what it read to the first connection attempt, unset variables as \<^verbatim>\<open>None\<close>: no
  default is put in and no check comes between the reads and the attempt. A second
  invocation, after the environment has been replaced by any \<open>env2\<close>, reads and uses
  \<open>env2\<close>: nothing of the first invocation is kept.
\<close>

theorem create_reads_environment_every_time:
  "(\<exists>r rest. new_events w (snd (create drv ev ctx w))
       = before_connect w @ Connect (admin_params w) r # rest) \<and>
   (let w2 = (snd (create drv ev ctx w))\<lparr>environ := env2\<rparr> in
    \<exists>r rest. new_events w2 (snd (create drv ev ctx w2))
       = [Log ''Connecting to db...'',
          Getenv ''CLAY_DATABASE_USER'' (env2 ''CLAY_DATABASE_USER''),
          Getenv ''CLAY_DATABASE_PASSWORD'' (env2 ''CLAY_DATABASE_PASSWORD''),
          Getenv ''CLAY_DATABASE_HOST'' (env2 ''CLAY_DATABASE_HOST''),
          Getenv ''CLAY_DATABASE_HOST_PORT'' (env2 ''CLAY_DATABASE_HOST_PORT''),
          Getenv ''CLAY_DATABASE_NAME'' (env2 ''CLAY_DATABASE_NAME''),
          Log (''user='' @ py_str (env2 ''CLAY_DATABASE_USER'')
               @ '', host='' @ py_str (env2 ''CLAY_DATABASE_HOST'')
               @ '', port='' @ py_str (env2 ''CLAY_DATABASE_HOST_PORT'')
               @ '', dbname='' @ py_str (env2 ''CLAY_DATABASE_NAME'')),
          Connect \<lparr>user = env2 ''CLAY_DATABASE_USER'', password = env2 ''CLAY_DATABASE_PASSWORD'',
                   host = env2 ''CLAY_DATABASE_HOST'', port = env2 ''CLAY_DATABASE_HOST_PORT'',
                   database = Some ''postgres''\<rparr> r] @ rest)"
proof -
  have "\<exists>r rest. new_events w (snd (create drv ev ctx w))
       = before_connect w @ Connect (admin_params w) r # rest"
    by (rule first_connect)
  moreover
  have "\<exists>r rest. new_events ((snd (create drv ev ctx w))\<lparr>environ := env2\<rparr>)
          (snd (create drv ev ctx ((snd (create drv ev ctx w))\<lparr>environ := env2\<rparr>)))
       = before_connect ((snd (create drv ev ctx w))\<lparr>environ := env2\<rparr>)
           @ Connect (admin_params ((snd (create drv ev ctx w))\<lparr>environ := env2\<rparr>)) r # rest"
    by (rule first_connect)
  ultimately show ?thesis
    by (simp add: Let_def)
qed

text \<open>With no variable set at all the connection is still attempted, with \<^verbatim>\<open>None\<close>
  everywhere.\<close>

theorem create_reads_environment_every_time_witness:
  "\<exists>r rest. trace (snd (create toy_driver () () unset_world))
     = [Log ''Connecting to db...'',
        Getenv ''CLAY_DATABASE_USER'' None,
        Getenv ''CLAY_DATABASE_PASSWORD'' None,
        Getenv ''CLAY_DATABASE_HOST'' None,
        Getenv ''CLAY_DATABASE_HOST_PORT'' None,
        Getenv ''CLAY_DATABASE_NAME'' None,
        Log ''user=None, host=None, port=None, dbname=None'',
        Connect \<lparr>user = None, password = None, host = None, port = None,
                 database = Some ''postgres''\<rparr> r] @ rest"
  using create_reads_environment_every_time [of unset_world toy_driver "()" "()" Map.empty]
  by (simp add: unset_world_def scenario_world_def new_events_def py_str_def)

subsection \<open>A script that cannot be opened or read\<close>

text \<open>
  C8. In every run: if \<^verbatim>\<open>index.sql\<close> is missing (opening it fails) or cannot be read, the run
  fails, sends no statement at all, so no CREATE DATABASE, and leaves the server as the
  first connection attempt left it; and whenever a run does send a statement, the
  successful read of the script stands in the trace before the first statement.
\<close>

theorem unreadable_script_creates_no_database:
  "case create drv ev ctx w of (r, w') \<Rightarrow>
     ((files w ''index.sql'' = None \<or> (\<exists>msg. files w ''index.sql'' = Some (Unreadable msg))) \<longrightarrow>
        (\<exists>e. r = Inl e) \<and>
        filter is_execute (new_events w w') = [] \<and>
        server w' = snd (drv_connect drv (admin_params w) (server w))) \<and>
     (filter is_execute (new_events w w') \<noteq> [] \<longrightarrow>
        Read ''index.sql'' None \<in> set (takeWhile (\<lambda>x. \<not> is_execute x) (new_events w w')))"
proof (cases rule: create_runs [of drv w])
  case (connect_fails e s1)
  from run_connect_fails [where ev = ev and ctx = ctx, OF this] connect_fails show ?thesis
    by (simp add: readers)
next
  case (open_fails s1)
  from run_open_fails [where ev = ev and ctx = ctx, OF this] open_fails show ?thesis
    by (simp add: readers)
next
  case (read_fails s1 msg)
  from run_read_fails [where ev = ev and ctx = ctx, OF this] read_fails show ?thesis
    by (simp add: readers)
next
  case (create_database_fails s1 sql e s2)
  from run_create_database_fails [where ev = ev and ctx = ctx, OF this] create_database_fails
  show ?thesis
    by (simp add: readers)
next
  case (reconnect_fails s1 sql s2 e s3)
  from run_reconnect_fails [where ev = ev and ctx = ctx, OF this] reconnect_fails show ?thesis
    by (simp add: readers)
next
  case (script_fails s1 sql s2 s3 e s4)
  from run_script_fails [where ev = ev and ctx = ctx, OF this] script_fails show ?thesis
    by (simp add: readers)
next
  case (succeeds s1 sql s2 s3 s4)
  from run_succeeds [where ev = ev and ctx = ctx, OF this] succeeds show ?thesis
    by (simp add: readers)
qed

text \<open>On the toy server: no script, an unreadable script, and the scenario, where the read
  comes before the statements.\<close>

theorem unreadable_script_creates_no_database_witness:
  "(case create toy_driver () () no_script_world of (r, w') \<Rightarrow>
      (\<exists>e. r = Inl e) \<and> filter is_execute (trace w') = [] \<and> server w' = [(''postgres'', [])]) \<and>
   (case create toy_driver () () bad_script_world of (r, w') \<Rightarrow>
      (\<exists>e. r = Inl e) \<and> filter is_execute (trace w') = [] \<and> server w' = [(''postgres'', [])]) \<and>
   (case create toy_driver () () scenario_world of (r, w') \<Rightarrow>
      Read ''index.sql'' None \<in> set (takeWhile (\<lambda>x. \<not> is_execute x) (trace w')))"
proof -
  have a: "case create toy_driver () () no_script_world of (r, w') \<Rightarrow>
      (\<exists>e. r = Inl e) \<and> filter is_execute (trace w') = [] \<and> server w' = [(''postgres'', [])]"
    using unreadable_script_creates_no_database [where drv = toy_driver and ev = "()" and ctx = "()" and w = no_script_world]
      no_script_file no_script_connect
    by (simp add: new_events_def no_script_world_def scenario_world_def split: prod.splits)
  have b: "case create toy_driver () () bad_script_world of (r, w') \<Rightarrow>
      (\<exists>e. r = Inl e) \<and> filter is_execute (trace w') = [] \<and> server w' = [(''postgres'', [])]"
    using unreadable_script_creates_no_database [where drv = toy_driver and ev = "()" and ctx = "()" and w = bad_script_world]
      bad_script_file bad_script_connect
    by (simp add: new_events_def bad_script_world_def scenario_world_def split: prod.splits)
  have "filter is_execute (new_events scenario_world (snd (create toy_driver () () scenario_world))) \<noteq> []"
    using run_succeeds [where ev = "()" and ctx = "()", OF scenario_connect scenario_file
        scenario_create_database scenario_reconnect scenario_script]
    by (simp add: readers)
  then have c: "case create toy_driver () () scenario_world of (r, w') \<Rightarrow>
      Read ''index.sql'' None \<in> set (takeWhile (\<lambda>x. \<not> is_execute x) (trace w'))"
    using unreadable_script_creates_no_database [where drv = toy_driver and ev = "()" and ctx = "()" and w = scenario_world]
    by (simp add: new_events_def scenario_world_def split: prod.splits)
  from a b c show ?thesis by simp
qed

subsection \<open>Connections on the error paths\<close>

text \<open>
  C9. In every run: a statement that fails was sent either on the first connection (and is
  the CREATE DATABASE statement) or on the second (the first being closed by then), and the
  connection it failed on is never closed: no close call for it is in the trace and it is
  open in the final world. When opening or reading the script fails, the first connection
  is open in the final world and the run made no close call at all. A run that fails never
  ends on a close call: the close calls stand only after a statement that succeeded.
\<close>

theorem failed_call_leaves_connection_open:
  "case create drv ev ctx w of (r, w') \<Rightarrow>
     (\<forall>c stmt e. Execute c stmt (Some e) \<in> set (new_events w w') \<longrightarrow>
        (c = length (conns w) \<and> stmt = create_database_stmt w \<or>
         c = Suc (length (conns w)) \<and> closed (conns w' ! length (conns w))) \<and>
        c < length (conns w') \<and> \<not> closed (conns w' ! c) \<and>
        ConnClose c \<notin> set (new_events w w')) \<and>
     (\<forall>e. Open ''index.sql'' (Some e) \<in> set (new_events w w') \<or>
          Read ''index.sql'' (Some e) \<in> set (new_events w w') \<longrightarrow>
        length (conns w) < length (conns w') \<and> \<not> closed (conns w' ! length (conns w)) \<and>
        filter is_close (new_events w w') = []) \<and>
     (\<forall>e. r = Inl e \<longrightarrow> \<not> is_close (last (new_events w w')))"
proof (cases rule: create_runs [of drv w])
  case (connect_fails e s1)
  from run_connect_fails [where ev = ev and ctx = ctx, OF this] show ?thesis
    by (simp add: readers)
next
  case (open_fails s1)
  from run_open_fails [where ev = ev and ctx = ctx, OF this] show ?thesis
    by (simp add: readers)
next
  case (read_fails s1 msg)
  from run_read_fails [where ev = ev and ctx = ctx, OF this] show ?thesis
    by (simp add: readers)
next
  case (create_database_fails s1 sql e s2)
  from run_create_database_fails [where ev = ev and ctx = ctx, OF this] show ?thesis
    by (simp add: readers)
next
  case (reconnect_fails s1 sql s2 e s3)
  from run_reconnect_fails [where ev = ev and ctx = ctx, OF this] show ?thesis
    by (simp add: readers)
next
  case (script_fails s1 sql s2 s3 e s4)
  from run_script_fails [where ev = ev and ctx = ctx, OF this] show ?thesis
    by (simp add: readers nth_append)
next
  case (succeeds s1 sql s2 s3 s4)
  from run_succeeds [where ev = ev and ctx = ctx, OF this] show ?thesis
    by (simp add: readers)
qed

text \<open>On the toy server: a duplicate database leaves connection 0 open, a refused script
  leaves connection 1 open (0 was closed), a missing script leaves connection 0 open.\<close>

theorem failed_call_leaves_connection_open_witness:
  "(case create toy_driver () () taken_world of (r, w') \<Rightarrow>
      Execute 0 ''CREATE DATABASE appdb;'' (Some (DuplicateDatabase ''appdb'')) \<in> set (trace w') \<and>
      \<not> closed (conns w' ! 0) \<and> ConnClose 0 \<notin> set (trace w')) \<and>
   (case create toy_driver () () empty_script_world of (r, w') \<Rightarrow>
      Execute 1 [] (Some (DatabaseError ''empty query'')) \<in> set (trace w') \<and>
      closed (conns w' ! 0) \<and> \<not> closed (conns w' ! 1) \<and> ConnClose 1 \<notin> set (trace w')) \<and>
   (case create toy_driver () () no_script_world of (r, w') \<Rightarrow>
      Open ''index.sql'' (Some (FileNotFoundError ''index.sql'')) \<in> set (trace w') \<and>
      \<not> closed (conns w' ! 0) \<and> filter is_close (trace w') = [])"
proof -
  have t: "trace taken_world = []" "conns taken_world = []"
    and s: "trace empty_script_world = []" "conns empty_script_world = []"
    and n: "trace no_script_world = []" "conns no_script_world = []"
    by (simp_all add: toy)
  have "Execute 0 ''CREATE DATABASE appdb;'' (Some (DuplicateDatabase ''appdb''))
          \<in> set (new_events taken_world (snd (create toy_driver () () taken_world)))"
    using run_create_database_fails [where ev = "()" and ctx = "()",
        OF taken_connect taken_file taken_create_database]
    by (simp add: readers toy)
  with failed_call_leaves_connection_open
         [where drv = toy_driver and ev = "()" and ctx = "()" and w = taken_world]
  have a: "case create toy_driver () () taken_world of (r, w') \<Rightarrow>
      Execute 0 ''CREATE DATABASE appdb;'' (Some (DuplicateDatabase ''appdb'')) \<in> set (trace w') \<and>
      \<not> closed (conns w' ! 0) \<and> ConnClose 0 \<notin> set (trace w')"
    by (auto simp add: new_events_def t split: prod.splits)
  have "Execute 1 [] (Some (DatabaseError ''empty query''))
          \<in> set (new_events empty_script_world (snd (create toy_driver () () empty_script_world)))"
    using run_script_fails [where ev = "()" and ctx = "()",
        OF empty_script_connect empty_script_file empty_script_create_database
          empty_script_reconnect empty_script_script]
    by (simp add: readers s)
  with failed_call_leaves_connection_open
         [where drv = toy_driver and ev = "()" and ctx = "()" and w = empty_script_world]
  have b: "case create toy_driver () () empty_script_world of (r, w') \<Rightarrow>
      Execute 1 [] (Some (DatabaseError ''empty query'')) \<in> set (trace w') \<and>
      closed (conns w' ! 0) \<and> \<not> closed (conns w' ! 1) \<and> ConnClose 1 \<notin> set (trace w')"
    by (auto simp add: new_events_def s split: prod.splits)
  have "Open ''index.sql'' (Some (FileNotFoundError ''index.sql''))
          \<in> set (new_events no_script_world (snd (create toy_driver () () no_script_world)))"
    using run_open_fails [where ev = "()" and ctx = "()", OF no_script_connect no_script_file]
    by (simp add: readers n)
  with failed_call_leaves_connection_open
         [where drv = toy_driver and ev = "()" and ctx = "()" and w = no_script_world]
  have c: "case create toy_driver () () no_script_world of (r, w') \<Rightarrow>
      Open ''index.sql'' (Some (FileNotFoundError ''index.sql'')) \<in> set (trace w') \<and>
      \<not> closed (conns w' ! 0) \<and> filter is_close (trace w') = []"
    by (auto simp add: new_events_def n split: prod.splits)
  from a b c show ?thesis by simp
qed

subsection \<open>The password and the log\<close>

text \<open>
  C10 says that the value of \<^verbatim>\<open>CLAY_DATABASE_PASSWORD\<close> never appears in the log, for every
  environment. The handler logs the user, the host, the port, the database name and the
  whole script, so the password's value is in the log whenever it also occurs in one of
  those. With the password equal to the user name admin, the second message of the run
  holds the password's value.
\<close>

theorem password_value_in_log:
  "environ same_password_world ''CLAY_DATABASE_PASSWORD'' = Some ''admin'' \<and>
   ''user=admin, host=db.local, port=5432, dbname=appdb''
     \<in> set (log_output (trace (snd (create toy_driver () () same_password_world)))) \<and>
   sublist ''admin'' ''user=admin, host=db.local, port=5432, dbname=appdb''"
proof -
  have "sublist ''admin'' (''user='' @ ''admin'' @ '', host=db.local, port=5432, dbname=appdb'')"
    by (rule sublist_appendI)
  then have "sublist ''admin'' ''user=admin, host=db.local, port=5432, dbname=appdb''"
    by simp
  moreover have "''user=admin, host=db.local, port=5432, dbname=appdb''
     \<in> set (log_output (trace (snd (create toy_driver () () same_password_world))))"
    using run_connect_fails [where ev = "()" and ctx = "()", OF same_password_connect]
    by (simp add: readers toy)
  moreover have "environ same_password_world ''CLAY_DATABASE_PASSWORD'' = Some ''admin''"
    by (simp add: toy)
  ultimately show ?thesis by simp
qed

text \<open>
  C10, as amended. Every run logs, as its second message, the user, host, port and database
  name, and it logs the text of the script once it has read it. No message is computed from
  the password: two runs from worlds that differ only in the value of
  \<^verbatim>\<open>CLAY_DATABASE_PASSWORD\<close> (set to anything, or unset) log the same messages for as long as
  both go on; one log is an initial part of the other.
\<close>

theorem log_does_not_depend_on_password:
  "let w2 = w\<lparr>environ := (environ w)(''CLAY_DATABASE_PASSWORD'' := p)\<rparr>;
       out = log_output (new_events w (snd (create drv ev ctx w)));
       out2 = log_output (new_events w2 (snd (create drv ev ctx w2)))
   in take 2 out =
        [''Connecting to db...'',
         ''user='' @ py_str (environ w ''CLAY_DATABASE_USER'')
           @ '', host='' @ py_str (environ w ''CLAY_DATABASE_HOST'')
           @ '', port='' @ py_str (environ w ''CLAY_DATABASE_HOST_PORT'')
           @ '', dbname='' @ py_str (environ w ''CLAY_DATABASE_NAME'')] \<and>
      (Read ''index.sql'' None \<in> set (new_events w (snd (create drv ev ctx w))) \<longrightarrow>
         (\<exists>sql. files w ''index.sql'' = Some (Readable sql) \<and> ''SQL: '' @ sql \<in> set out)) \<and>
      (prefix out out2 \<or> prefix out2 out)"
proof -
  define w2 where "w2 = w\<lparr>environ := (environ w)(''CLAY_DATABASE_PASSWORD'' := p)\<rparr>"
  define out where "out = log_output (new_events w (snd (create drv ev ctx w)))"
  define out2 where "out2 = log_output (new_events w2 (snd (create drv ev ctx w2)))"
  define full where "full = log_lines (environ w ''CLAY_DATABASE_USER'') (environ w ''CLAY_DATABASE_HOST'')
        (environ w ''CLAY_DATABASE_HOST_PORT'') (environ w ''CLAY_DATABASE_NAME'') (script_text w)"
  have "prefix out full"
    unfolding out_def full_def by (rule log_is_prefix)
  moreover have "prefix out2 full"
    using log_is_prefix [of w2 drv ev ctx]
    by (simp add: out2_def full_def w2_def script_text_def)
  ultimately have cmp: "prefix out out2 \<or> prefix out2 out"
    by (rule prefix_same_cases)
  obtain r rest where "new_events w (snd (create drv ev ctx w))
       = before_connect w @ Connect (admin_params w) r # rest"
    using first_connect [of w drv ev ctx] by blast
  then have start: "take 2 out =
        [''Connecting to db...'',
         ''user='' @ py_str (environ w ''CLAY_DATABASE_USER'')
           @ '', host='' @ py_str (environ w ''CLAY_DATABASE_HOST'')
           @ '', port='' @ py_str (environ w ''CLAY_DATABASE_HOST_PORT'')
           @ '', dbname='' @ py_str (environ w ''CLAY_DATABASE_NAME'')]"
    by (simp add: out_def log_output_def)
  have "Read ''index.sql'' None \<in> set (new_events w (snd (create drv ev ctx w))) \<longrightarrow>
         (\<exists>sql. files w ''index.sql'' = Some (Readable sql) \<and> ''SQL: '' @ sql \<in> set out)"
    unfolding out_def using read_is_logged [of w drv ev ctx] by blast
  with start cmp show ?thesis
    by (simp add: Let_def out_def out2_def w2_def)
qed

text \<open>The scenario, and the same world with a password the toy server refuses: the
  second run's log is the first two messages of the first's.\<close>

theorem log_does_not_depend_on_password_witness:
  "take 2 (log_output (trace (snd (create toy_driver () () scenario_world))))
     = [''Connecting to db...'', ''user=admin, host=db.local, port=5432, dbname=appdb''] \<and>
   ''SQL: CREATE TABLE t (id int);''
     \<in> set (log_output (trace (snd (create toy_driver () () scenario_world)))) \<and>
   (prefix (log_output (trace (snd (create toy_driver () () scenario_world))))
      (log_output (trace (snd (create toy_driver () ()
         (scenario_world\<lparr>environ := scenario_env(''CLAY_DATABASE_PASSWORD'' \<mapsto> ''y'')\<rparr>))))) \<or>
    prefix (log_output (trace (snd (create toy_driver () ()
         (scenario_world\<lparr>environ := scenario_env(''CLAY_DATABASE_PASSWORD'' \<mapsto> ''y'')\<rparr>)))))
      (log_output (trace (snd (create toy_driver () () scenario_world)))))"
proof -
  have "Read ''index.sql'' None
          \<in> set (new_events scenario_world (snd (create toy_driver () () scenario_world)))"
    using run_succeeds [where ev = "()" and ctx = "()", OF scenario_connect scenario_file
        scenario_create_database scenario_reconnect scenario_script]
    by (simp add: readers)
  moreover have "files scenario_world ''index.sql'' = Some (Readable ''CREATE TABLE t (id int);'')"
    by (rule scenario_file)
  moreover have "environ scenario_world = scenario_env" "trace scenario_world = []"
    by (simp_all add: scenario_world_def)
  moreover have "py_str (scenario_env ''CLAY_DATABASE_USER'') = ''admin''"
    "py_str (scenario_env ''CLAY_DATABASE_HOST'') = ''db.local''"
    "py_str (scenario_env ''CLAY_DATABASE_HOST_PORT'') = ''5432''"
    "py_str (scenario_env ''CLAY_DATABASE_NAME'') = ''appdb''"
    by (simp_all add: scenario_env_def py_str_def)
  ultimately show ?thesis
    using log_does_not_depend_on_password
      [where w = scenario_world and drv = toy_driver and ev = "()" and ctx = "()" and p = "Some ''y''"]
    by (simp add: Let_def new_events_def)
qed

end
